theory Spec2Isabelle
  imports Complex_Main "HOL-Library.Sublist"
begin

section \<open>The persistent relation store\<close>

text \<open>
  The three tables of the social database (\<open>contacts\<close>, \<open>mutes\<close>, \<open>graph_cache\<close>) are
  lists of rows in insertion (rowid) order. A JavaScript value of type
  \<open>string | undefined\<close> is a \<open>string option\<close>, with \<open>None\<close> for \<open>undefined\<close>; an SQL
  \<open>TEXT\<close> column that may hold \<open>NULL\<close> is a \<open>string option\<close> with \<open>None\<close> for \<open>NULL\<close>.
  The key columns \<open>contacts.pubkey\<close> and \<open>mutes.pubkey\<close> are declared
  \<open>TEXT PRIMARY KEY\<close> without \<open>NOT NULL\<close>, so they may hold \<open>NULL\<close>, and rows with a
  \<open>NULL\<close> key never conflict with one another; the columns of \<open>graph_cache\<close> are
  \<open>NOT NULL\<close>. The clock value \<open>strftime('%s', 'now')\<close> is the parameter \<open>now\<close> of each
  writing operation.
\<close>

record contact =
  pubkey :: "string option"
  relay :: "string option"
  petname :: "string option"
  addedAt :: int

record mute =
  mute_pubkey :: "string option"
  mute_addedAt :: int

record edge =
  source_pubkey :: string
  target_pubkey :: string
  distance :: int
  updated_at :: int

record db =
  contacts :: "contact list"
  mutes :: "mute list"
  graph_cache :: "edge list"

definition empty_db :: db where
  "empty_db = \<lparr>contacts = [], mutes = [], graph_cache = []\<rparr>"

text \<open>
  The errors that the modelled code can raise: a \<open>NOT NULL\<close> constraint of the database
  fails; a query against the relays fails; \<open>JSON.parse\<close> raises a \<open>SyntaxError\<close>; a
  property is read on \<open>null\<close> (\<open>TypeError\<close>); the database driver refuses the value or
  the number of values it is given to bind (\<open>TypeError\<close>, \<open>RangeError\<close>).
\<close>

datatype error = ConstraintError | QueryError | SyntaxError | TypeError | RangeError

text \<open>\<open>x || null\<close> on an optional string: \<open>undefined\<close> and the empty string become \<open>NULL\<close>.\<close>

fun or_null :: "string option \<Rightarrow> string option" where
  "or_null None = None"
| "or_null (Some s) = (if s = [] then None else Some s)"

subsection \<open>Contacts\<close>

text \<open>
  \<open>INSERT OR REPLACE INTO contacts\<close>: the row holding the same primary key, if any, is
  deleted and the new row is appended. A new row whose key is \<open>NULL\<close> conflicts with no
  row.
\<close>

definition replace_contact :: "contact \<Rightarrow> contact list \<Rightarrow> contact list" where
  "replace_contact r rows =
     filter (\<lambda>x. \<not> (pubkey r \<noteq> None \<and> pubkey x = pubkey r)) rows @ [r]"

definition addContact :: "int \<Rightarrow> string \<Rightarrow> string option \<Rightarrow> string option \<Rightarrow> db \<Rightarrow> db" where
  "addContact now pk rl pn d =
     d\<lparr>contacts := replace_contact
          \<lparr>pubkey = Some pk, relay = or_null rl, petname = or_null pn, addedAt = now\<rparr>
          (contacts d)\<rparr>"

text \<open>
  \<open>SELECT 1 FROM contacts WHERE pubkey = ?\<close>, then \<open>!!result\<close>: a row with a \<open>NULL\<close> key
  matches no string.
\<close>

definition isContact :: "db \<Rightarrow> string \<Rightarrow> bool" where
  "isContact d pk = (find (\<lambda>c. pubkey c = Some pk) (contacts d) \<noteq> None)"

text \<open>
  \<open>SELECT ... FROM contacts ORDER BY added_at DESC\<close>: a stable sort of the rows on the
  negated timestamp.
\<close>

definition getContacts :: "db \<Rightarrow> contact list" where
  "getContacts d = sort_key (\<lambda>c. - addedAt c) (contacts d)"

definition getContactCount :: "db \<Rightarrow> nat" where
  "getContactCount d = length (contacts d)"

definition clearContacts :: "db \<Rightarrow> db" where
  "clearContacts d = d\<lparr>contacts := []\<rparr>"

text \<open>
  The argument of \<open>bulkInsertContacts\<close>: objects \<open>{pubkey, relay?, petname?}\<close>. The
  TypeScript type says \<open>pubkey: string\<close>, but the sync command fills it from \<open>t[1]\<close> of a
  tag, which is \<open>undefined\<close> on a tag of one element, so the field is optional here. The
  driver binds \<open>undefined\<close> as \<open>NULL\<close>.
\<close>

record contact_input =
  in_pubkey :: "string option"
  in_relay :: "string option"
  in_petname :: "string option"

text \<open>The body of the transaction: one \<open>stmt.run\<close> per element, in order.\<close>

fun insertMany_contacts :: "int \<Rightarrow> contact_input list \<Rightarrow> contact list \<Rightarrow> contact list" where
  "insertMany_contacts now [] rows = rows"
| "insertMany_contacts now (c # cs) rows =
     insertMany_contacts now cs
       (replace_contact
          \<lparr>pubkey = in_pubkey c, relay = or_null (in_relay c), petname = or_null (in_petname c),
           addedAt = now\<rparr> rows)"

definition bulkInsertContacts :: "int \<Rightarrow> contact_input list \<Rightarrow> db \<Rightarrow> db" where
  "bulkInsertContacts now cs d = d\<lparr>contacts := insertMany_contacts now cs (contacts d)\<rparr>"

text \<open>An argument that has the declared type: every \<open>pubkey\<close> is a string.\<close>

definition typed_contact :: "string \<times> string option \<times> string option \<Rightarrow> contact_input" where
  "typed_contact t =
     \<lparr>in_pubkey = Some (fst t), in_relay = fst (snd t), in_petname = snd (snd t)\<rparr>"

subsection \<open>Mutes\<close>

definition replace_mute :: "mute \<Rightarrow> mute list \<Rightarrow> mute list" where
  "replace_mute r rows =
     filter (\<lambda>x. \<not> (mute_pubkey r \<noteq> None \<and> mute_pubkey x = mute_pubkey r)) rows @ [r]"

definition addMute :: "int \<Rightarrow> string \<Rightarrow> db \<Rightarrow> db" where
  "addMute now pk d =
     d\<lparr>mutes := replace_mute \<lparr>mute_pubkey = Some pk, mute_addedAt = now\<rparr> (mutes d)\<rparr>"

definition isMuted :: "db \<Rightarrow> string \<Rightarrow> bool" where
  "isMuted d pk = (find (\<lambda>m. mute_pubkey m = Some pk) (mutes d) \<noteq> None)"

definition clearMutes :: "db \<Rightarrow> db" where
  "clearMutes d = d\<lparr>mutes := []\<rparr>"

fun insertMany_mutes :: "int \<Rightarrow> string option list \<Rightarrow> mute list \<Rightarrow> mute list" where
  "insertMany_mutes now [] rows = rows"
| "insertMany_mutes now (p # ps) rows =
     insertMany_mutes now ps (replace_mute \<lparr>mute_pubkey = p, mute_addedAt = now\<rparr> rows)"

definition bulkInsertMutes :: "int \<Rightarrow> string option list \<Rightarrow> db \<Rightarrow> db" where
  "bulkInsertMutes now ps d = d\<lparr>mutes := insertMany_mutes now ps (mutes d)\<rparr>"

section \<open>The graph cache and the trust distance\<close>

text \<open>\<open>INSERT OR REPLACE INTO graph_cache\<close>, on the key \<open>(source_pubkey, target_pubkey)\<close>.\<close>

definition replace_edge :: "edge \<Rightarrow> edge list \<Rightarrow> edge list" where
  "replace_edge r rows =
     filter (\<lambda>x. \<not> (source_pubkey x = source_pubkey r \<and> target_pubkey x = target_pubkey r)) rows
       @ [r]"

text \<open>
  The body of the transaction. An \<open>undefined\<close> target is bound as \<open>NULL\<close>, which the
  \<open>NOT NULL\<close> column refuses: the statement raises, and the transaction wrapper rolls
  back.
\<close>

fun insertMany_edges :: "int \<Rightarrow> string \<Rightarrow> int \<Rightarrow> string option list \<Rightarrow> edge list \<Rightarrow> error + edge list" where
  "insertMany_edges now src dst [] rows = Inr rows"
| "insertMany_edges now src dst (t # ts) rows =
     (case t of
        None \<Rightarrow> Inl ConstraintError
      | Some tgt \<Rightarrow>
          insertMany_edges now src dst ts
            (replace_edge
               \<lparr>source_pubkey = src, target_pubkey = tgt, distance = dst, updated_at = now\<rparr>
               rows))"

text \<open>\<open>Inl e\<close>: the call raised \<open>e\<close> and the database is as it was before the call.\<close>

definition updateGraphCache :: "int \<Rightarrow> string \<Rightarrow> string option list \<Rightarrow> int \<Rightarrow> db \<Rightarrow> error + db" where
  "updateGraphCache now sourcePubkey follows dst d =
     (case insertMany_edges now sourcePubkey dst follows (graph_cache d) of
        Inl e \<Rightarrow> Inl e
      | Inr rows \<Rightarrow> Inr (d\<lparr>graph_cache := rows\<rparr>))"

text \<open>
  The aggregate \<open>MIN(distance)\<close> over the selected rows: \<open>NULL\<close> on no row. Then
  \<open>MIN(distance) + 1\<close>, where \<open>NULL + 1\<close> is \<open>NULL\<close>. In
  \<open>source_pubkey IN (SELECT pubkey FROM contacts)\<close> a \<open>NULL\<close> key selects no edge.
\<close>

fun sql_min :: "int option \<Rightarrow> int list \<Rightarrow> int option" where
  "sql_min acc [] = acc"
| "sql_min None (x # xs) = sql_min (Some x) xs"
| "sql_min (Some m) (x # xs) = sql_min (Some (if x < m then x else m)) xs"

definition select_min_distance :: "db \<Rightarrow> string \<Rightarrow> int option" where
  "select_min_distance d targetPubkey =
     map_option (\<lambda>m. m + 1)
       (sql_min None
          (map distance
             (filter (\<lambda>e. Some (source_pubkey e) \<in> set (map pubkey (contacts d))
                          \<and> target_pubkey e = targetPubkey)
                (graph_cache d))))"

text \<open>\<open>None\<close> is the result \<open>null\<close>: the target is not in the graph.\<close>

definition getTrustDistance :: "db \<Rightarrow> string \<Rightarrow> string \<Rightarrow> int option" where
  "getTrustDistance d targetPubkey myPubkey =
     (if targetPubkey = myPubkey then Some 0
      else
        let contactPubkeys = set (map pubkey (getContacts d))
        in if Some targetPubkey \<in> contactPubkeys then Some 1
           else select_min_distance d targetPubkey)"

text \<open>\<open>Array.prototype.filter\<close> with the callback of \<open>filterByTrustDistance\<close>.\<close>

fun filterByTrustDistance :: "db \<Rightarrow> string list \<Rightarrow> string \<Rightarrow> int \<Rightarrow> string list" where
  "filterByTrustDistance d [] myPubkey maxDistance = []"
| "filterByTrustDistance d (p # ps) myPubkey maxDistance =
     (let rest = filterByTrustDistance d ps myPubkey maxDistance
      in if isMuted d p then rest
         else (case getTrustDistance d p myPubkey of
                 None \<Rightarrow> rest
               | Some dst \<Rightarrow> if dst \<le> maxDistance then p # rest else rest))"

definition clearGraphCache :: "db \<Rightarrow> db" where
  "clearGraphCache d = d\<lparr>graph_cache := []\<rparr>"

section \<open>The relay client\<close>

record event =
  ev_pubkey :: string
  ev_kind :: int
  tags :: "string list list"

text \<open>
  A query filter. The sync command fills \<open>authors\<close> from the \<open>pubkey\<close> column of the
  contacts, so an element may be \<open>null\<close>.
\<close>

record nostr_filter =
  kinds :: "int list"
  authors :: "string option list"
  limit :: "int option"

text \<open>\<open>xs[i]\<close> on a JavaScript array: \<open>undefined\<close> out of range.\<close>

fun nth_opt :: "'a list \<Rightarrow> nat \<Rightarrow> 'a option" where
  "nth_opt [] i = None"
| "nth_opt (x # xs) 0 = Some x"
| "nth_opt (x # xs) (Suc i) = nth_opt xs i"

text \<open>
  \<open>queryEvents\<close>, with \<open>pool.querySync\<close> of the relay library on the default relays as the
  parameter \<open>querySync\<close>: each filter is queried in turn and the results are concatenated.
  A single filter is passed as a list of one.
\<close>

fun queryEvents :: "(nostr_filter \<Rightarrow> error + event list) \<Rightarrow> nostr_filter list \<Rightarrow> error + event list" where
  "queryEvents querySync [] = Inr []"
| "queryEvents querySync (f # fs) =
     (case querySync f of
        Inl e \<Rightarrow> Inl e
      | Inr events \<Rightarrow>
          (case queryEvents querySync fs of
             Inl e \<Rightarrow> Inl e
           | Inr others \<Rightarrow> Inr (events @ others)))"

text \<open>
  A promise that has settled is fulfilled or rejected; \<open>Pending\<close> is a promise that never
  settles. \<open>Promise.allSettled\<close> resolves once every promise has settled, so it never
  resolves (\<open>None\<close>) when one of them stays pending.
\<close>

datatype 'a settled = Fulfilled 'a | Rejected | Pending

definition allSettled :: "'a settled list \<Rightarrow> 'a settled list option" where
  "allSettled promises = (if Pending \<in> set promises then None else Some promises)"

text \<open>
  \<open>settled.forEach((result, i) => ...)\<close>: the index runs along the settled results, and
  \<open>relays[i]\<close> is pushed for each fulfilled one.
\<close>

fun forEach_settled :: "string list \<Rightarrow> nat \<Rightarrow> 'a settled list \<Rightarrow> string option list \<Rightarrow> string option list" where
  "forEach_settled relays i [] results = results"
| "forEach_settled relays i (r # rs) results =
     forEach_settled relays (Suc i) rs
       (case r of Fulfilled v \<Rightarrow> results @ [nth_opt relays i] | _ \<Rightarrow> results)"

text \<open>
  \<open>publishEvent\<close>, with \<open>pool.publish\<close> of the relay library as the parameter
  \<open>pool_publish\<close> (the list of promises it returns, each with its eventual outcome).
  \<open>None\<close>: the call never returns.
\<close>

definition publishEvent :: "(string list \<Rightarrow> 'e \<Rightarrow> 'a settled list) \<Rightarrow> 'e \<Rightarrow> string list \<Rightarrow> string option list option" where
  "publishEvent pool_publish ev relays =
     (case allSettled (pool_publish relays ev) of
        None \<Rightarrow> None
      | Some settled \<Rightarrow> Some (forEach_settled relays 0 settled []))"

definition is_fulfilled :: "'a settled \<Rightarrow> bool" where
  "is_fulfilled r = (case r of Fulfilled v \<Rightarrow> True | _ \<Rightarrow> False)"

section \<open>The graph sync command\<close>

text \<open>
  A step of the command returns the database it leaves and the error it raised, if any.
  An error ends the \<open>try\<close> block: the later steps do not run, and the database stays as
  the failing step left it.
\<close>

type_synonym outcome = "db \<times> error option"

definition then_step :: "outcome \<Rightarrow> (db \<Rightarrow> outcome) \<Rightarrow> outcome" where
  "then_step r f = (case snd r of None \<Rightarrow> f (fst r) | Some e \<Rightarrow> r)"

definition p_tags :: "event \<Rightarrow> string list list" where
  "p_tags ev = filter (\<lambda>t. nth_opt t 0 = Some ''p'') (tags ev)"

definition sync_contacts :: "(nostr_filter \<Rightarrow> error + event list) \<Rightarrow> int \<Rightarrow> string \<Rightarrow> db \<Rightarrow> outcome" where
  "sync_contacts querySync now publicKey d =
     (case queryEvents querySync [\<lparr>kinds = [3], authors = [Some publicKey], limit = Some 1\<rparr>] of
        Inl e \<Rightarrow> (d, Some e)
      | Inr contactEvents \<Rightarrow>
          (case contactEvents of
             [] \<Rightarrow> (d, None)
           | latestContacts # _ \<Rightarrow>
               (let pTags = p_tags latestContacts;
                    d1 = clearContacts d;
                    cs = map (\<lambda>t. \<lparr>in_pubkey = nth_opt t 1, in_relay = nth_opt t 2,
                                   in_petname = nth_opt t 3\<rparr>) pTags
                in (bulkInsertContacts now cs d1, None))))"

definition sync_mutes :: "(nostr_filter \<Rightarrow> error + event list) \<Rightarrow> int \<Rightarrow> string \<Rightarrow> db \<Rightarrow> outcome" where
  "sync_mutes querySync now publicKey d =
     (case queryEvents querySync [\<lparr>kinds = [10000], authors = [Some publicKey], limit = Some 1\<rparr>] of
        Inl e \<Rightarrow> (d, Some e)
      | Inr muteEvents \<Rightarrow>
          (case muteEvents of
             [] \<Rightarrow> (d, None)
           | latestMutes # _ \<Rightarrow>
               (let pTags = p_tags latestMutes;
                    d1 = clearMutes d;
                    mutePubkeys = map (\<lambda>t. nth_opt t 1) pTags
                in (bulkInsertMutes now mutePubkeys d1, None))))"

text \<open>The loop \<open>for (const event of followsEvents)\<close>.\<close>

fun cache_follows :: "int \<Rightarrow> event list \<Rightarrow> db \<Rightarrow> outcome" where
  "cache_follows now [] d = (d, None)"
| "cache_follows now (ev # evs) d =
     (let follows = map (\<lambda>t. nth_opt t 1) (p_tags ev)
      in case updateGraphCache now (ev_pubkey ev) follows 1 d of
           Inl e \<Rightarrow> (d, Some e)
         | Inr d' \<Rightarrow> cache_follows now evs d')"

definition build_cache :: "(nostr_filter \<Rightarrow> error + event list) \<Rightarrow> int \<Rightarrow> int \<Rightarrow> db \<Rightarrow> outcome" where
  "build_cache querySync now depth d =
     (if depth > 1 then
        (let d1 = clearGraphCache d;
             contactPubkeys = map pubkey (getContacts d1)
         in if length contactPubkeys > 0 then
              (case queryEvents querySync [\<lparr>kinds = [3], authors = contactPubkeys, limit = None\<rparr>] of
                 Inl e \<Rightarrow> (d1, Some e)
               | Inr followsEvents \<Rightarrow> cache_follows now followsEvents d1)
            else (d1, None))
      else (d, None))"

text \<open>
  \<open>graphSyncCommand\<close>: \<open>keyPair\<close> is the public key that \<open>loadKeyPair\<close> returns, \<open>None\<close>
  when there is no identity; \<open>depth\<close> is \<open>options.depth\<close>. The process exits with status 1
  exactly when the error component is not \<open>None\<close>.
\<close>

datatype exit_reason = NoIdentity | Raised error

definition graphSyncCommand :: "(nostr_filter \<Rightarrow> error + event list) \<Rightarrow> int \<Rightarrow> string option \<Rightarrow> int option \<Rightarrow> db \<Rightarrow> db \<times> exit_reason option" where
  "graphSyncCommand querySync now keyPair depth_opt d =
     (case keyPair of
        None \<Rightarrow> (d, Some NoIdentity)
      | Some publicKey \<Rightarrow>
          (let depth = (case depth_opt of None \<Rightarrow> 2 | Some n \<Rightarrow> n);
               r = then_step
                     (then_step (sync_contacts querySync now publicKey d)
                        (sync_mutes querySync now publicKey))
                     (build_cache querySync now depth)
           in (fst r, map_option Raised (snd r))))"

section \<open>JavaScript values\<close>

text \<open>
  The values that \<open>JSON.parse\<close> returns, and \<open>undefined\<close>. A number is a double: a
  finite one with its value, an infinity (from a literal that overflows), or \<open>NaN\<close>. An
  object is the list of its own properties.
\<close>

datatype js_number = Finite real | PosInfinity | NegInfinity | NaN

datatype jsval =
  JUndefined
| JNull
| JBool bool
| JNumber js_number
| JString string
| JArray "jsval list"
| JObject "(string \<times> jsval) list"

text \<open>\<open>!v\<close> is false exactly on the values that are truthy.\<close>

fun truthy :: "jsval \<Rightarrow> bool" where
  "truthy JUndefined = False"
| "truthy JNull = False"
| "truthy (JBool b) = b"
| "truthy (JNumber n) = (case n of Finite x \<Rightarrow> x \<noteq> 0 | NaN \<Rightarrow> False | _ \<Rightarrow> True)"
| "truthy (JString s) = (s \<noteq> [])"
| "truthy (JArray vs) = True"
| "truthy (JObject ps) = True"

text \<open>
  \<open>event.pubkey\<close>: reading a property of \<open>null\<close> or \<open>undefined\<close> raises a \<open>TypeError\<close>; an
  object gives the property or \<open>undefined\<close>; any other value has no such property.
\<close>

fun get_pubkey :: "jsval \<Rightarrow> error + jsval" where
  "get_pubkey JNull = Inl TypeError"
| "get_pubkey JUndefined = Inl TypeError"
| "get_pubkey (JObject ps) =
     Inr (case map_of ps ''pubkey'' of None \<Rightarrow> JUndefined | Some v \<Rightarrow> v)"
| "get_pubkey v = Inr JUndefined"

subsection \<open>The store functions on a value that is not a string\<close>

text \<open>
  \<open>isMuted\<close>, \<open>getTrustDistance\<close> and \<open>filterByTrustDistance\<close> declare their keys as
  strings, but the stream filter hands them whatever value the property \<open>pubkey\<close> of a
  parsed line holds. The driver binds a string as text and \<open>undefined\<close> or \<open>null\<close> as
  \<open>NULL\<close>. What it does with another value is the parameter \<open>driver\<close>: it raises, or it
  binds \<open>NULL\<close> (\<open>None\<close>) or a value that a \<open>TEXT\<close> column is compared with as the given
  text.
\<close>

definition bind_param :: "(jsval \<Rightarrow> error + string option) \<Rightarrow> jsval \<Rightarrow> error + string option" where
  "bind_param driver v =
     (case v of
        JString s \<Rightarrow> Inr (Some s)
      | JUndefined \<Rightarrow> Inr None
      | JNull \<Rightarrow> Inr None
      | _ \<Rightarrow> driver v)"

text \<open>\<open>isMuted\<close>: \<open>pubkey = NULL\<close> selects no row.\<close>

definition isMuted_val :: "(jsval \<Rightarrow> error + string option) \<Rightarrow> db \<Rightarrow> jsval \<Rightarrow> error + bool" where
  "isMuted_val driver d v =
     (case bind_param driver v of
        Inl e \<Rightarrow> Inl e
      | Inr None \<Rightarrow> Inr False
      | Inr (Some t) \<Rightarrow> Inr (isMuted d t))"

text \<open>
  \<open>getTrustDistance\<close>: a value that is not a string is not \<open>===\<close> to the own key, and
  the set of contact keys has it only when it is \<open>null\<close> and a contact row has a \<open>NULL\<close>
  key; otherwise the value is bound in the query on the cache.
\<close>

definition getTrustDistance_val :: "(jsval \<Rightarrow> error + string option) \<Rightarrow> db \<Rightarrow> jsval \<Rightarrow> string \<Rightarrow> error + int option" where
  "getTrustDistance_val driver d v myPubkey =
     (case v of
        JString s \<Rightarrow> Inr (getTrustDistance d s myPubkey)
      | _ \<Rightarrow>
          if v = JNull \<and> None \<in> set (map pubkey (getContacts d)) then Inr (Some 1)
          else (case bind_param driver v of
                  Inl e \<Rightarrow> Inl e
                | Inr None \<Rightarrow> Inr None
                | Inr (Some t) \<Rightarrow> Inr (select_min_distance d t)))"

text \<open>\<open>filterByTrustDistance\<close>: an error raised by the callback leaves the filter.\<close>

fun filterByTrustDistance_val :: "(jsval \<Rightarrow> error + string option) \<Rightarrow> db \<Rightarrow> jsval list \<Rightarrow> string \<Rightarrow> int \<Rightarrow> error + jsval list" where
  "filterByTrustDistance_val driver d [] myPubkey maxDistance = Inr []"
| "filterByTrustDistance_val driver d (v # vs) myPubkey maxDistance =
     (case (case isMuted_val driver d v of
              Inl e \<Rightarrow> Inl e
            | Inr True \<Rightarrow> Inr False
            | Inr False \<Rightarrow>
                (case getTrustDistance_val driver d v myPubkey of
                   Inl e \<Rightarrow> Inl e
                 | Inr None \<Rightarrow> Inr False
                 | Inr (Some dst) \<Rightarrow> Inr (dst \<le> maxDistance))) of
        Inl e \<Rightarrow> Inl e
      | Inr keep \<Rightarrow>
          (case filterByTrustDistance_val driver d vs myPubkey maxDistance of
             Inl e \<Rightarrow> Inl e
           | Inr rest \<Rightarrow> Inr (if keep then v # rest else rest)))"

section \<open>The stream filter\<close>

text \<open>
  \<open>JSON.parse\<close> is a parameter: \<open>None\<close> when it raises a \<open>SyntaxError\<close>, the parsed
  value otherwise.
\<close>

record filter_run =
  emitted :: "string list"
  passed :: nat
  filtered :: nat

definition pass_line :: "string \<Rightarrow> filter_run \<Rightarrow> filter_run" where
  "pass_line line st = st\<lparr>emitted := emitted st @ [line], passed := passed st + 1\<rparr>"

definition drop_line :: "filter_run \<Rightarrow> filter_run" where
  "drop_line st = st\<lparr>filtered := filtered st + 1\<rparr>"

text \<open>
  One iteration of \<open>for (const line of lines)\<close>. Every error raised in the \<open>try\<close> block,
  by the parser, the property read or a store function, is caught, and the \<open>catch\<close>
  block passes the line.
\<close>

definition filter_line :: "(string \<Rightarrow> jsval option) \<Rightarrow> (jsval \<Rightarrow> error + string option) \<Rightarrow> db \<Rightarrow> string \<Rightarrow> int \<Rightarrow> string \<Rightarrow> filter_run \<Rightarrow> filter_run" where
  "filter_line JSON_parse driver d publicKey maxDistance line st =
     (case JSON_parse line of
        None \<Rightarrow> pass_line line st
      | Some event \<Rightarrow>
          (case get_pubkey event of
             Inl e \<Rightarrow> pass_line line st
           | Inr authorPubkey \<Rightarrow>
               if \<not> truthy authorPubkey then pass_line line st
               else
                 (case isMuted_val driver d authorPubkey of
                    Inl e \<Rightarrow> pass_line line st
                  | Inr True \<Rightarrow> drop_line st
                  | Inr False \<Rightarrow>
                      (case filterByTrustDistance_val driver d [authorPubkey] publicKey
                              maxDistance of
                         Inl e \<Rightarrow> pass_line line st
                       | Inr validPubkeys \<Rightarrow>
                           if length validPubkeys > 0 then pass_line line st
                           else drop_line st))))"

fun filter_lines :: "(string \<Rightarrow> jsval option) \<Rightarrow> (jsval \<Rightarrow> error + string option) \<Rightarrow> db \<Rightarrow> string \<Rightarrow> int \<Rightarrow> string list \<Rightarrow> filter_run \<Rightarrow> filter_run" where
  "filter_lines JSON_parse driver d publicKey maxDistance [] st = st"
| "filter_lines JSON_parse driver d publicKey maxDistance (line # rest) st =
     filter_lines JSON_parse driver d publicKey maxDistance rest
       (filter_line JSON_parse driver d publicKey maxDistance line st)"

text \<open>
  \<open>String.prototype.trim\<close> removes white space and line terminators at both ends; of
  these, the type \<open>char\<close> holds the code points 9 to 13, 32 and 160.
\<close>

definition is_ws :: "char \<Rightarrow> bool" where
  "is_ws c = ((of_char c :: nat) \<in> {9, 10, 11, 12, 13, 32, 160})"

definition trim :: "string \<Rightarrow> string" where
  "trim s = rev (dropWhile is_ws (rev (dropWhile is_ws s)))"

text \<open>\<open>s.split('\n')\<close>: the empty string splits into one empty piece.\<close>

fun split_nl :: "string \<Rightarrow> string list" where
  "split_nl [] = [[]]"
| "split_nl (c # cs) =
     (if c = CHR 0x0A then [] # split_nl cs
      else (case split_nl cs of
              [] \<Rightarrow> [[c]]
            | l # ls \<Rightarrow> (c # l) # ls))"

text \<open>\<open>input.trim().split('\n').filter(Boolean)\<close>: \<open>Boolean(s)\<close> is false on the empty string only.\<close>

definition input_lines :: "string \<Rightarrow> string list" where
  "input_lines input = filter (\<lambda>l. l \<noteq> []) (split_nl (trim input))"

definition graphFilterCommand :: "(string \<Rightarrow> jsval option) \<Rightarrow> (jsval \<Rightarrow> error + string option) \<Rightarrow> string option \<Rightarrow> int option \<Rightarrow> string \<Rightarrow> db \<Rightarrow> exit_reason + filter_run" where
  "graphFilterCommand JSON_parse driver keyPair maxDistance_opt input d =
     (case keyPair of
        None \<Rightarrow> Inl NoIdentity
      | Some publicKey \<Rightarrow>
          (let maxDistance = (case maxDistance_opt of None \<Rightarrow> 2 | Some n \<Rightarrow> n);
               lines = input_lines input
           in Inr (filter_lines JSON_parse driver d publicKey maxDistance lines
                     \<lparr>emitted = [], passed = 0, filtered = 0\<rparr>)))"

section \<open>The specification's words\<close>

text \<open>
  The cached edges that count for a target: those whose source is currently a contact and
  whose target is the given key.
\<close>

definition contact_edges_to :: "db \<Rightarrow> string \<Rightarrow> edge list" where
  "contact_edges_to d t =
     filter (\<lambda>e. isContact d (source_pubkey e) \<and> target_pubkey e = t) (graph_cache d)"

text \<open>
  The trust filter's decision on one author: drop if muted; otherwise drop if the
  distance is unknown; otherwise keep exactly when the distance is at most the bound.
\<close>

definition trust_keep :: "db \<Rightarrow> string \<Rightarrow> int \<Rightarrow> string \<Rightarrow> bool" where
  "trust_keep d my mx p =
     (if isMuted d p then False
      else (case getTrustDistance d p my of None \<Rightarrow> False | Some k \<Rightarrow> k \<le> mx))"

text \<open>The distance of \<open>t\<close> after \<open>updateGraphCache(c, [t], 1)\<close>.\<close>

definition distance_after_upsert :: "int \<Rightarrow> string \<Rightarrow> string \<Rightarrow> string \<Rightarrow> db \<Rightarrow> error + int option" where
  "distance_after_upsert now c t my d =
     (case updateGraphCache now c [Some t] 1 d of
        Inl e \<Rightarrow> Inl e
      | Inr d' \<Rightarrow> Inr (getTrustDistance d' t my))"

text \<open>
  The metadata as stored: a relay hint or petname that is absent or empty is stored as
  \<open>NULL\<close>, any other is stored as it is.
\<close>

definition stored_text :: "string option \<Rightarrow> string option" where
  "stored_text x = (case x of Some (c # cs) \<Rightarrow> Some (c # cs) | _ \<Rightarrow> None)"

text \<open>
  The row stored for a triple \<open>(pubkey, relay hint, petname)\<close>, and the table after
  upserting a list of triples one by one.
\<close>

definition contact_row :: "int \<Rightarrow> string option \<times> string option \<times> string option \<Rightarrow> contact" where
  "contact_row now it =
     \<lparr>pubkey = fst it, relay = stored_text (fst (snd it)),
      petname = stored_text (snd (snd it)), addedAt = now\<rparr>"

definition upsert_all :: "int \<Rightarrow> contact list \<Rightarrow> (string option \<times> string option \<times> string option) list \<Rightarrow> contact list" where
  "upsert_all now rows items = foldl (\<lambda>rs it. replace_contact (contact_row now it) rs) rows items"

text \<open>A list of items of the declared type, as triples.\<close>

definition with_keys :: "(string \<times> string option \<times> string option) list \<Rightarrow> (string option \<times> string option \<times> string option) list" where
  "with_keys items = map (\<lambda>it. (Some (fst it), snd it)) items"

text \<open>The keys of the rows that have one, in row order, and the rows that have none.\<close>

definition keyed :: "contact list \<Rightarrow> string list" where
  "keyed rows = List.map_filter pubkey rows"

definition keyless :: "contact list \<Rightarrow> contact list" where
  "keyless rows = filter (\<lambda>r. pubkey r = None) rows"

text \<open>
  The triples \<open>(pubkey, relay hint, petname)\<close> that a follow-list record references: one
  for each \<open>p\<close> tag, from its elements 1, 2 and 3.
\<close>

definition referenced_contacts :: "event \<Rightarrow> (string option \<times> string option \<times> string option) list" where
  "referenced_contacts ev = map (\<lambda>t. (nth_opt t 1, nth_opt t 2, nth_opt t 3)) (p_tags ev)"



text \<open>
  The endpoints whose send was acknowledged: those paired with a fulfilled outcome, in the
  order of the input.
\<close>

definition acknowledged :: "string list \<Rightarrow> 'a settled list \<Rightarrow> string list" where
  "acknowledged relays outcomes = map fst (filter (\<lambda>p. is_fulfilled (snd p)) (zip relays outcomes))"

text \<open>
  The stream filter's decision on a line. The line passes when it does not parse; when
  reading the author raises; when the author is missing or falsy; when the trust
  filter, given the author alone, raises; and otherwise exactly when the trust filter
  keeps the author.
\<close>

definition line_passes :: "(string \<Rightarrow> jsval option) \<Rightarrow> (jsval \<Rightarrow> error + string option) \<Rightarrow> db \<Rightarrow> string \<Rightarrow> int \<Rightarrow> string \<Rightarrow> bool" where
  "line_passes JSON_parse driver d my mx line =
     (case JSON_parse line of
        None \<Rightarrow> True
      | Some ev \<Rightarrow>
          (case get_pubkey ev of
             Inl e \<Rightarrow> True
           | Inr a \<Rightarrow>
               \<not> truthy a
               \<or> (case filterByTrustDistance_val driver d [a] my mx of
                     Inl e \<Rightarrow> True
                   | Inr kept \<Rightarrow> kept \<noteq> [])))"

text \<open>\<open>lines.join('\n')\<close>, the inverse of the split.\<close>

fun join_nl :: "string list \<Rightarrow> string" where
  "join_nl [] = []"
| "join_nl [l] = l"
| "join_nl (l # ls) = l @ CHR 0x0A # join_nl ls"

section \<open>Example states\<close>

text \<open>
  The specification's example graph: the agent follows alice and bob; alice follows carol
  and dave, bob follows dave and erin, each cached at distance 1; spammer is muted.
\<close>

definition fixture_db :: db where
  "fixture_db =
     \<lparr>contacts =
        [\<lparr>pubkey = Some ''alice'', relay = None, petname = None, addedAt = 1\<rparr>,
         \<lparr>pubkey = Some ''bob'', relay = None, petname = None, addedAt = 2\<rparr>],
      mutes = [\<lparr>mute_pubkey = Some ''spammer'', mute_addedAt = 3\<rparr>],
      graph_cache =
        [\<lparr>source_pubkey = ''alice'', target_pubkey = ''carol'', distance = 1, updated_at = 4\<rparr>,
         \<lparr>source_pubkey = ''alice'', target_pubkey = ''dave'', distance = 1, updated_at = 4\<rparr>,
         \<lparr>source_pubkey = ''bob'', target_pubkey = ''dave'', distance = 1, updated_at = 4\<rparr>,
         \<lparr>source_pubkey = ''bob'', target_pubkey = ''erin'', distance = 1, updated_at = 4\<rparr>]\<rparr>"

text \<open>The same contacts, with one cached edge of distance 0 from bob to zed.\<close>

definition fixture_db0 :: db where
  "fixture_db0 = fixture_db\<lparr>graph_cache :=
      [\<lparr>source_pubkey = ''bob'', target_pubkey = ''zed'', distance = 0, updated_at = 4\<rparr>]\<rparr>"

text \<open>
  The same contacts, with cached edges to zed of distance 0 from alice and of distance 3
  from bob.
\<close>

definition fixture_db1 :: db where
  "fixture_db1 = fixture_db\<lparr>graph_cache :=
      [\<lparr>source_pubkey = ''alice'', target_pubkey = ''zed'', distance = 0, updated_at = 4\<rparr>,
       \<lparr>source_pubkey = ''bob'', target_pubkey = ''zed'', distance = 3, updated_at = 4\<rparr>]\<rparr>"

text \<open>
  Relays for the examples. \<open>relay_ab\<close>: the agent's follow list names alice, with a relay
  hint and a petname, and bob, with an empty relay hint and a petname, and has a \<open>p\<close> tag
  without a key; there is no mute list, and alice's follow list names carol and dave.
  \<open>relay_a\<close>: the agent's follow list names alice only, and alice's follow list names
  alice herself and carol. \<open>relay_silent\<close> returns no record.
\<close>

definition relay_ab :: "nostr_filter \<Rightarrow> error + event list" where
  "relay_ab f =
     (if f = \<lparr>kinds = [3], authors = [Some ''me''], limit = Some 1\<rparr>
      then Inr [\<lparr>ev_pubkey = ''me'', ev_kind = 3,
                 tags = [[''p'', ''alice'', ''wss://a'', ''al''], [''e'', ''x''],
                         [''p'', ''bob'', '''', ''bobby''], [''p'']]\<rparr>]
      else if kinds f = [10000] then Inr []
      else Inr [\<lparr>ev_pubkey = ''alice'', ev_kind = 3,
                 tags = [[''p'', ''carol''], [''p'', ''dave'']]\<rparr>])"

definition relay_a :: "nostr_filter \<Rightarrow> error + event list" where
  "relay_a f =
     (if f = \<lparr>kinds = [3], authors = [Some ''me''], limit = Some 1\<rparr>
      then Inr [\<lparr>ev_pubkey = ''me'', ev_kind = 3, tags = [[''p'', ''alice'']]\<rparr>]
      else if kinds f = [10000] then Inr []
      else Inr [\<lparr>ev_pubkey = ''alice'', ev_kind = 3,
                 tags = [[''p'', ''alice''], [''p'', ''carol'']]\<rparr>])"

definition relay_silent :: "nostr_filter \<Rightarrow> error + event list" where
  "relay_silent f = Inr []"

text \<open>
  A pool for the examples: the send to \<open>wss://down\<close> is rejected, the send to
  \<open>wss://hang\<close> never settles, every other send is fulfilled.
\<close>

definition fixture_publish :: "string list \<Rightarrow> unit \<Rightarrow> string settled list" where
  "fixture_publish relays ev =
     map (\<lambda>url. if url = ''wss://down'' then Rejected
                 else if url = ''wss://hang'' then Pending
                 else Fulfilled ''ok'') relays"

text \<open>
  What \<open>JSON.parse\<close> gives on the lines of the examples, and a driver for them: it
  refuses an object with a \<open>RangeError\<close> and a boolean with a \<open>TypeError\<close>. The examples
  bind no other value that is not a string, and this driver refuses those too.
\<close>

definition fixture_parse :: "string \<Rightarrow> jsval option" where
  \<open>fixture_parse line =
     (if line = ''{"pubkey":""}'' then Some (JObject [(''pubkey'', JString [])])
      else if line = ''{"pubkey":true}'' then Some (JObject [(''pubkey'', JBool True)])
      else if line = ''{"pubkey":{}}'' then Some (JObject [(''pubkey'', JObject [])])
      else if line = ''{"pubkey":"alice"}'' then Some (JObject [(''pubkey'', JString ''alice'')])
      else if line = ''{"pubkey":"stranger"}''
        then Some (JObject [(''pubkey'', JString ''stranger'')])
      else if line = ''{"pubkey":"spammer"}''
        then Some (JObject [(''pubkey'', JString ''spammer'')])
      else if line = ''{"kind":1}'' then Some (JObject [(''kind'', JNumber (Finite 1))])
      else if line = ''null'' then Some JNull
      else None)\<close>

definition fixture_driver :: "jsval \<Rightarrow> error + string option" where
  "fixture_driver v = (case v of JObject ps \<Rightarrow> Inl RangeError | _ \<Rightarrow> Inl TypeError)"

text \<open>An input of seven pieces, three of them empty.\<close>

definition fixture_input :: string where
  \<open>fixture_input =
     ''  not json'' @ [CHR 0x0A] @ ''{"pubkey":"alice"}'' @ [CHR 0x0A, CHR 0x0A]
     @ ''{"pubkey":"stranger"}'' @ [CHR 0x0A] @ ''{"kind":1}'' @ [CHR 0x0A]
     @ ''{"pubkey":"spammer"}'' @ [CHR 0x0A] @ ''null'' @ [CHR 0x0A, CHR 0x0A]\<close>

text \<open>An input whose lines carry an author that is a boolean, an object and the empty string.\<close>

definition fixture_input2 :: string where
  \<open>fixture_input2 =
     ''{"pubkey":true}'' @ [CHR 0x0A] @ ''{"pubkey":{}}'' @ [CHR 0x0A]
     @ ''{"pubkey":""}'' @ [CHR 0x0A] @ ''{"pubkey":"stranger"}''\<close>

section \<open>Membership and the minimum\<close>

lemma isContact_iff: "isContact d pk \<longleftrightarrow> Some pk \<in> pubkey ` set (contacts d)"
  by (auto simp: isContact_def find_None_iff intro: rev_image_eqI)

lemma isMuted_iff: "isMuted d pk \<longleftrightarrow> Some pk \<in> mute_pubkey ` set (mutes d)"
  by (auto simp: isMuted_def find_None_iff intro: rev_image_eqI)

lemma set_getContacts: "set (getContacts d) = set (contacts d)"
  by (simp add: getContacts_def)

lemma Min_insert2:
  "finite S \<Longrightarrow> Min (insert (if x < m then x else m) S) = Min (insert (m::int) (insert x S))"
  by (cases "S = {}") (auto simp: min_def)

lemma sql_min_Some: "sql_min (Some m) xs = Some (Min (insert m (set xs)))"
proof (induction xs arbitrary: m)
  case Nil
  show ?case by simp
next
  case (Cons x xs)
  show ?case using Cons.IH [of "if x < m then x else m"] Min_insert2 [of "set xs" x m]
    by simp
qed

lemma sql_min_None: "sql_min None xs = (if xs = [] then None else Some (Min (set xs)))"
  by (cases xs) (simp_all add: sql_min_Some)

lemma getTrustDistance_cases:
  "getTrustDistance d t my =
     (if t = my then Some 0
      else if isContact d t then Some 1
      else if contact_edges_to d t = [] then None
      else Some (Min (set (map distance (contact_edges_to d t))) + 1))"
  by (simp add: getTrustDistance_def Let_def set_getContacts select_min_distance_def
      sql_min_None isContact_iff contact_edges_to_def)

lemma filterByTrustDistance_filter:
  "filterByTrustDistance d ps my mx = filter (trust_keep d my mx) ps"
  by (induction ps) (simp_all add: Let_def trust_keep_def split: option.split)

section \<open>The trust distance resolver\<close>

text \<open>
  Claim C1. For every target and every own key, \<open>getTrustDistance\<close> returns, the first
  match winning: 0 when the target is the own key; 1 when the target is a contact;
  otherwise the least distance plus 1 over the cached edges whose source is a contact
  and whose target is the target, when there is such an edge; otherwise \<open>null\<close>.
\<close>

theorem getTrustDistance_spec:
  "getTrustDistance d t my =
     (if t = my then Some 0
      else if isContact d t then Some 1
      else if contact_edges_to d t = [] then None
      else Some (Min (set (map distance (contact_edges_to d t))) + 1))"
  by (rule getTrustDistance_cases)

theorem getTrustDistance_spec_witness:
  "getTrustDistance fixture_db ''me'' ''me'' = Some 0
   \<and> getTrustDistance fixture_db ''bob'' ''me'' = Some 1
   \<and> getTrustDistance fixture_db ''dave'' ''me'' = Some 2
   \<and> getTrustDistance fixture_db ''stranger'' ''me'' = None"
  using getTrustDistance_spec [of fixture_db "''me''" "''me''"]
    getTrustDistance_spec [of fixture_db "''bob''" "''me''"]
    getTrustDistance_spec [of fixture_db "''dave''" "''me''"]
    getTrustDistance_spec [of fixture_db "''stranger''" "''me''"]
  by (simp add: fixture_db_def isContact_def contact_edges_to_def)

section \<open>The trust filter\<close>

text \<open>
  Claim C2. For every list of authors, own key and bound, \<open>filterByTrustDistance\<close>
  returns the authors that the decision \<open>trust_keep\<close> keeps, in the order of the input:
  an author in the mutes is dropped whatever its distance, also when it is a contact;
  an author that is not muted is dropped when its distance is unknown, and is otherwise
  kept exactly when its distance is at most the bound.
\<close>

theorem filterByTrustDistance_spec:
  "filterByTrustDistance d ps my mx = filter (trust_keep d my mx) ps
   \<and> subseq (filterByTrustDistance d ps my mx) ps
   \<and> (isMuted d p \<longrightarrow> p \<notin> set (filterByTrustDistance d ps my mx))
   \<and> (\<not> isMuted d p \<and> getTrustDistance d p my = None
        \<longrightarrow> p \<notin> set (filterByTrustDistance d ps my mx))
   \<and> (\<not> isMuted d p \<and> getTrustDistance d p my = Some k
        \<longrightarrow> (p \<in> set (filterByTrustDistance d ps my mx) \<longleftrightarrow> p \<in> set ps \<and> k \<le> mx))"
  by (simp add: filterByTrustDistance_filter trust_keep_def)

theorem filterByTrustDistance_spec_witness:
  "isMuted (addMute 5 ''alice'' fixture_db) ''alice''
   \<and> isContact (addMute 5 ''alice'' fixture_db) ''alice''
   \<and> getTrustDistance (addMute 5 ''alice'' fixture_db) ''stranger'' ''me'' = None
   \<and> getTrustDistance (addMute 5 ''alice'' fixture_db) ''bob'' ''me'' = Some 1
   \<and> getTrustDistance (addMute 5 ''alice'' fixture_db) ''erin'' ''me'' = Some 2
   \<and> filterByTrustDistance (addMute 5 ''alice'' fixture_db)
        [''me'', ''alice'', ''bob'', ''erin'', ''stranger'', ''spammer''] ''me'' 1
      = [''me'', ''bob'']"
proof -
  let ?d = "addMute 5 ''alice'' fixture_db"
  let ?ps = "[''me'', ''alice'', ''bob'', ''erin'', ''stranger'', ''spammer'']"
  have m: "isMuted ?d ''alice'' \<and> isContact ?d ''alice'' \<and> \<not> isMuted ?d ''stranger''
      \<and> \<not> isMuted ?d ''bob'' \<and> \<not> isMuted ?d ''erin''"
    by (simp add: fixture_db_def addMute_def replace_mute_def isMuted_def isContact_def)
  have g: "getTrustDistance ?d ''stranger'' ''me'' = None
      \<and> getTrustDistance ?d ''bob'' ''me'' = Some 1
      \<and> getTrustDistance ?d ''erin'' ''me'' = Some 2"
    by (simp add: fixture_db_def addMute_def getTrustDistance_def getContacts_def
        select_min_distance_def)
  have a: "''bob'' \<in> set ?ps \<and> (1::int) \<le> 1 \<and> \<not> (2::int) \<le> 1"
    by simp
  have "''alice'' \<notin> set (filterByTrustDistance ?d ?ps ''me'' 1)"
    using filterByTrustDistance_spec [of ?d ?ps "''me''" 1 "''alice''" 0] m by blast
  moreover have "''stranger'' \<notin> set (filterByTrustDistance ?d ?ps ''me'' 1)"
    using filterByTrustDistance_spec [of ?d ?ps "''me''" 1 "''stranger''" 0] m g by blast
  moreover have "''bob'' \<in> set (filterByTrustDistance ?d ?ps ''me'' 1)"
    using filterByTrustDistance_spec [of ?d ?ps "''me''" 1 "''bob''" 1] m g a by blast
  moreover have "''erin'' \<notin> set (filterByTrustDistance ?d ?ps ''me'' 1)"
    using filterByTrustDistance_spec [of ?d ?ps "''me''" 1 "''erin''" 2] m g a by blast
  moreover have "filterByTrustDistance ?d ?ps ''me'' 1 = [''me'', ''bob'']"
    using filterByTrustDistance_spec [of ?d ?ps "''me''" 1 "''me''" 0]
    by (simp add: fixture_db_def addMute_def replace_mute_def isMuted_def
        trust_keep_def getTrustDistance_def getContacts_def select_min_distance_def)
  ultimately show ?thesis using m g by simp
qed

section \<open>Clearing the graph cache\<close>

text \<open>
  Claim C9. \<open>clearGraphCache\<close> deletes cached edges only: the contacts and the mutes are
  the same rows afterwards, so membership in either is unchanged, the distance of the own
  key is 0 before and after, and the distance of every contact is unchanged (1 for a
  contact other than the own key).
\<close>

theorem clearGraphCache_frame:
  "contacts (clearGraphCache d) = contacts d
   \<and> mutes (clearGraphCache d) = mutes d
   \<and> isContact (clearGraphCache d) p = isContact d p
   \<and> isMuted (clearGraphCache d) p = isMuted d p
   \<and> getTrustDistance (clearGraphCache d) my my = Some 0
   \<and> getTrustDistance d my my = Some 0
   \<and> (isContact d c \<longrightarrow>
        getTrustDistance (clearGraphCache d) c my = getTrustDistance d c my
        \<and> (c \<noteq> my \<longrightarrow> getTrustDistance d c my = Some 1))"
  by (simp add: clearGraphCache_def isContact_iff isMuted_iff getTrustDistance_def
      getContacts_def)

theorem clearGraphCache_frame_witness:
  "isContact fixture_db ''bob''
   \<and> graph_cache fixture_db \<noteq> []
   \<and> graph_cache (clearGraphCache fixture_db) = []
   \<and> getTrustDistance (clearGraphCache fixture_db) ''bob'' ''me'' = Some 1
   \<and> getTrustDistance (clearGraphCache fixture_db) ''me'' ''me'' = Some 0
   \<and> isMuted (clearGraphCache fixture_db) ''spammer''"
  using clearGraphCache_frame [of fixture_db "''spammer''" "''me''" "''bob''"]
  by (simp add: fixture_db_def isContact_def isMuted_def clearGraphCache_def)

section \<open>One upserted edge\<close>

text \<open>
  Claim C4, as stated, fails: after \<open>updateGraphCache(alice, [t], 1)\<close> with alice a
  contact, the distance of \<open>t\<close> is 0 when \<open>t\<close> is the own key, 1 when \<open>t\<close> is itself a
  contact, and 1 when another contact holds a cached edge of distance 0 to \<open>t\<close>.
\<close>

theorem upsert_distance_counterexample:
  "isContact fixture_db ''alice''
   \<and> distance_after_upsert 9 ''alice'' ''me'' ''me'' fixture_db = Inr (Some 0)
   \<and> distance_after_upsert 9 ''alice'' ''bob'' ''me'' fixture_db = Inr (Some 1)
   \<and> distance_after_upsert 9 ''alice'' ''zed'' ''me'' fixture_db0 = Inr (Some 1)"
  by (simp add: fixture_db_def fixture_db0_def isContact_def distance_after_upsert_def
      updateGraphCache_def replace_edge_def getTrustDistance_def getContacts_def
      select_min_distance_def)

lemma contact_edges_to_update:
  "contact_edges_to
     (d\<lparr>graph_cache := replace_edge
          \<lparr>source_pubkey = c, target_pubkey = t, distance = k, updated_at = now\<rparr>
          (graph_cache d)\<rparr>) t
   = filter (\<lambda>e. source_pubkey e \<noteq> c) (contact_edges_to d t)
     @ (if isContact d c
        then [\<lparr>source_pubkey = c, target_pubkey = t, distance = k, updated_at = now\<rparr>] else [])"
  by (auto simp: contact_edges_to_def replace_edge_def isContact_def intro: filter_cong)

text \<open>
  Claim C4, amended. For every contact \<open>c\<close> and every \<open>t\<close> that is neither the own key
  nor a contact, if no cached edge to \<open>t\<close> from a contact other than \<open>c\<close> has a distance
  below 1, then after \<open>updateGraphCache(c, [t], 1)\<close> the distance of \<open>t\<close> is 2, whatever
  distance an edge from \<open>c\<close> to \<open>t\<close> had before.
\<close>

theorem upsert_distance_two:
  assumes "isContact d c" and "t \<noteq> my" and "\<not> isContact d t"
    and "\<forall>e \<in> set (contact_edges_to d t). source_pubkey e \<noteq> c \<longrightarrow> 1 \<le> distance e"
  shows "distance_after_upsert now c t my d = Inr (Some 2)"
proof -
  let ?new = "\<lparr>source_pubkey = c, target_pubkey = t, distance = 1, updated_at = now\<rparr>"
  let ?d' = "d\<lparr>graph_cache := replace_edge ?new (graph_cache d)\<rparr>"
  let ?es = "filter (\<lambda>e. source_pubkey e \<noteq> c) (contact_edges_to d t)"
  have upd: "updateGraphCache now c [Some t] 1 d = Inr ?d'"
    by (simp add: updateGraphCache_def)
  have edges: "contact_edges_to ?d' t = ?es @ [?new]"
    using assms(1) by (simp add: contact_edges_to_update)
  have nc: "\<not> isContact ?d' t"
    using assms(3) by (simp add: isContact_def)
  have lower: "\<forall>k \<in> set (map distance (?es @ [?new])). 1 \<le> k"
    using assms(4) by auto
  have "Min (set (map distance (?es @ [?new]))) = 1"
    by (rule Min_eqI) (use lower in auto)
  then have "getTrustDistance ?d' t my = Some 2"
    using assms(2) nc edges by (simp add: getTrustDistance_cases)
  then show ?thesis
    using upd by (simp add: distance_after_upsert_def)
qed

theorem upsert_distance_two_witness:
  "isContact fixture_db1 ''alice'' \<and> ''zed'' \<noteq> ''me'' \<and> \<not> isContact fixture_db1 ''zed''
   \<and> contact_edges_to fixture_db1 ''zed''
     = [\<lparr>source_pubkey = ''alice'', target_pubkey = ''zed'', distance = 0, updated_at = 4\<rparr>,
        \<lparr>source_pubkey = ''bob'', target_pubkey = ''zed'', distance = 3, updated_at = 4\<rparr>]
   \<and> getTrustDistance fixture_db1 ''zed'' ''me'' = Some 1
   \<and> distance_after_upsert 9 ''alice'' ''zed'' ''me'' fixture_db1 = Inr (Some 2)"
proof -
  have 1: "isContact fixture_db1 ''alice''"
    by (simp add: fixture_db1_def fixture_db_def isContact_def)
  have 2: "''zed'' \<noteq> ''me''" by simp
  have 3: "\<not> isContact fixture_db1 ''zed''"
    by (simp add: fixture_db1_def fixture_db_def isContact_def)
  have es: "contact_edges_to fixture_db1 ''zed''
     = [\<lparr>source_pubkey = ''alice'', target_pubkey = ''zed'', distance = 0, updated_at = 4\<rparr>,
        \<lparr>source_pubkey = ''bob'', target_pubkey = ''zed'', distance = 3, updated_at = 4\<rparr>]"
    by (simp add: fixture_db1_def fixture_db_def contact_edges_to_def isContact_def)
  have 4: "\<forall>e \<in> set (contact_edges_to fixture_db1 ''zed'').
             source_pubkey e \<noteq> ''alice'' \<longrightarrow> 1 \<le> distance e"
    by (simp add: es)
  have before: "getTrustDistance fixture_db1 ''zed'' ''me'' = Some 1"
    using 3 es by (simp add: getTrustDistance_cases)
  show ?thesis
    using upsert_distance_two [OF 1 2 3 4, of 9] 1 3 es before by simp
qed

section \<open>Bulk upsert of contacts\<close>

lemma or_null_stored: "or_null x = stored_text x"
proof (cases x)
  case None
  then show ?thesis by (simp add: stored_text_def)
next
  case (Some s)
  then show ?thesis by (cases s) (simp_all add: stored_text_def)
qed

lemma insertMany_contacts_upsert:
  "insertMany_contacts now
     (map (\<lambda>t. \<lparr>in_pubkey = fst t, in_relay = fst (snd t), in_petname = snd (snd t)\<rparr>) items)
     rows
   = upsert_all now rows items"
  by (induction items arbitrary: rows)
     (simp_all add: upsert_all_def contact_row_def or_null_stored)

lemma insertMany_contacts_typed:
  "insertMany_contacts now (map typed_contact items) rows = upsert_all now rows (with_keys items)"
proof -
  have "map typed_contact items
      = map (\<lambda>t. \<lparr>in_pubkey = fst t, in_relay = fst (snd t), in_petname = snd (snd t)\<rparr>)
          (with_keys items)"
    by (simp add: with_keys_def typed_contact_def)
  then show ?thesis by (simp only: insertMany_contacts_upsert)
qed

lemma upsert_all_snoc:
  "upsert_all now rows (items @ [x]) = replace_contact (contact_row now x) (upsert_all now rows items)"
  by (simp add: upsert_all_def)

lemma pubkey_contact_row: "pubkey (contact_row now it) = fst it"
  by (simp add: contact_row_def)

lemma upsert_all_keys:
  "pubkey ` set (upsert_all now rows items) = pubkey ` set rows \<union> fst ` set items"
proof (induction items rule: rev_induct)
  case Nil
  show ?case by (simp add: upsert_all_def)
next
  case (snoc x items)
  have "pubkey ` set (replace_contact r R) = insert (pubkey r) (pubkey ` set R)" for r R
    by (auto simp: replace_contact_def)
  then show ?case using snoc.IH by (simp add: upsert_all_snoc pubkey_contact_row)
qed

lemma map_filter_append: "List.map_filter f (xs @ ys) = List.map_filter f xs @ List.map_filter f ys"
  by (simp add: map_filter_def)

lemma set_keyed: "set (keyed rows) = {k. Some k \<in> pubkey ` set rows}"
  by (induction rows) (auto simp: keyed_def split: option.splits)

lemma keyed_replace_contact:
  "keyed (replace_contact r R) =
     (case pubkey r of None \<Rightarrow> keyed R | Some k \<Rightarrow> filter (\<lambda>x. x \<noteq> k) (keyed R) @ [k])"
proof (cases "pubkey r")
  case None
  then show ?thesis by (simp add: replace_contact_def keyed_def map_filter_append)
next
  case (Some k)
  have "List.map_filter pubkey (filter (\<lambda>x. pubkey x \<noteq> Some k) R)
      = filter (\<lambda>x. x \<noteq> k) (List.map_filter pubkey R)"
    by (induction R) (auto split: option.splits)
  then show ?thesis using Some by (simp add: replace_contact_def keyed_def map_filter_append)
qed

lemma replace_contact_distinct:
  "distinct (keyed R) \<Longrightarrow> distinct (keyed (replace_contact r R))"
  by (auto simp: keyed_replace_contact split: option.splits)

lemma upsert_all_distinct:
  "distinct (keyed rows) \<Longrightarrow> distinct (keyed (upsert_all now rows items))"
  by (induction items rule: rev_induct)
     (simp_all add: upsert_all_def replace_contact_distinct)

lemma keyless_replace_contact:
  "keyless (replace_contact r R) = keyless R @ (if pubkey r = None then [r] else [])"
  by (auto simp: keyless_def replace_contact_def intro: filter_cong)

lemma upsert_all_keyless:
  "keyless (upsert_all now rows items)
     = keyless rows @ map (contact_row now) (filter (\<lambda>it. fst it = None) items)"
  by (induction items rule: rev_induct)
     (simp_all add: upsert_all_def keyless_replace_contact pubkey_contact_row)

lemma length_keyless_keyed: "length rows = length (keyless rows) + length (keyed rows)"
  by (induction rows) (auto simp: keyless_def keyed_def split: option.splits)

lemma filter_replace_contact:
  "filter (\<lambda>r. pubkey r = Some pk) (replace_contact x R) =
     (if pubkey x = Some pk then [x] else filter (\<lambda>r. pubkey r = Some pk) R)"
  by (auto simp: replace_contact_def filter_empty_conv intro: filter_cong)

lemma upsert_all_last:
  "map_of (rev items) (Some pk) = Some md \<Longrightarrow>
     filter (\<lambda>r. pubkey r = Some pk) (upsert_all now rows items) = [contact_row now (Some pk, md)]"
proof (induction items rule: rev_induct)
  case Nil
  then show ?case by simp
next
  case (snoc x items)
  show ?case
  proof (cases "fst x = Some pk")
    case True
    then have "x = (Some pk, md)" using snoc.prems by (cases x) simp
    then show ?thesis by (simp add: upsert_all_snoc filter_replace_contact pubkey_contact_row)
  next
    case False
    then have "map_of (rev items) (Some pk) = Some md" using snoc.prems by (cases x) simp
    then show ?thesis using False snoc.IH
      by (simp add: upsert_all_snoc filter_replace_contact pubkey_contact_row)
  qed
qed

lemma upsert_all_other:
  "Some pk \<notin> fst ` set items \<Longrightarrow>
     filter (\<lambda>r. pubkey r = Some pk) (upsert_all now rows items)
       = filter (\<lambda>r. pubkey r = Some pk) rows"
  by (induction items rule: rev_induct)
     (auto simp: upsert_all_def filter_replace_contact pubkey_contact_row)

lemma upsert_all_count:
  assumes "distinct (keyed rows)"
  shows "length (upsert_all now rows items)
     = length (keyless rows) + length (filter (\<lambda>it. fst it = None) items)
       + card (set (keyed rows) \<union> {k. Some k \<in> fst ` set items})"
proof -
  let ?R = "upsert_all now rows items"
  have "distinct (keyed ?R)" using assms by (rule upsert_all_distinct)
  then have "length (keyed ?R) = card (set (keyed ?R))"
    by (simp add: distinct_card)
  moreover have "set (keyed ?R) = set (keyed rows) \<union> {k. Some k \<in> fst ` set items}"
    by (auto simp: set_keyed upsert_all_keys)
  ultimately show ?thesis
    using length_keyless_keyed [of ?R] by (simp add: upsert_all_keyless)
qed

lemma with_keys_facts:
  "map_of (rev (with_keys items)) (Some pk) = map_of (rev items) pk"
  "filter (\<lambda>it. fst it = None) (with_keys items) = []"
  "{k. Some k \<in> fst ` set (with_keys items)} = fst ` set items"
  "(Some pk \<in> fst ` set (with_keys items)) = (pk \<in> fst ` set items)"
proof -
  show "map_of (rev (with_keys items)) (Some pk) = map_of (rev items) pk"
    by (induction items rule: rev_induct) (auto simp: with_keys_def)
  show "filter (\<lambda>it. fst it = None) (with_keys items) = []"
    by (simp add: with_keys_def filter_empty_conv)
  show "{k. Some k \<in> fst ` set (with_keys items)} = fst ` set items"
    by (force simp: with_keys_def)
  show "(Some pk \<in> fst ` set (with_keys items)) = (pk \<in> fst ` set items)"
    by (force simp: with_keys_def)
qed

text \<open>
  Claim C8. For every list of items given to \<open>bulkInsertContacts\<close>, repeated keys
  included, the table afterwards holds, for each key of the input, exactly one row, with
  the metadata of the key's last occurrence (\<open>map_of\<close> on the reversed input); rows of
  other keys and rows without a key are untouched; \<open>getContactCount\<close> is the number of
  distinct keys of the table and the input together, plus the rows without a key, hence
  the number of distinct keys of the input on an empty table; and the empty list leaves
  the database unchanged.
\<close>

theorem bulkInsertContacts_last_write_wins:
  "mutes (bulkInsertContacts now (map typed_contact items) d) = mutes d
   \<and> graph_cache (bulkInsertContacts now (map typed_contact items) d) = graph_cache d
   \<and> (\<forall>pk md. map_of (rev items) pk = Some md \<longrightarrow>
         filter (\<lambda>r. pubkey r = Some pk)
           (contacts (bulkInsertContacts now (map typed_contact items) d))
         = [\<lparr>pubkey = Some pk, relay = stored_text (fst md), petname = stored_text (snd md),
             addedAt = now\<rparr>])
   \<and> (\<forall>pk. pk \<notin> fst ` set items \<longrightarrow>
         filter (\<lambda>r. pubkey r = Some pk)
           (contacts (bulkInsertContacts now (map typed_contact items) d))
         = filter (\<lambda>r. pubkey r = Some pk) (contacts d))
   \<and> keyless (contacts (bulkInsertContacts now (map typed_contact items) d))
       = keyless (contacts d)
   \<and> (distinct (keyed (contacts d)) \<longrightarrow>
         distinct (keyed (contacts (bulkInsertContacts now (map typed_contact items) d)))
         \<and> getContactCount (bulkInsertContacts now (map typed_contact items) d)
           = length (keyless (contacts d)) + card (set (keyed (contacts d)) \<union> fst ` set items))
   \<and> (contacts d = [] \<longrightarrow>
         getContactCount (bulkInsertContacts now (map typed_contact items) d)
           = card (fst ` set items))
   \<and> (items = [] \<longrightarrow> bulkInsertContacts now (map typed_contact items) d = d)"
proof -
  let ?U = "upsert_all now (contacts d) (with_keys items)"
  have run: "bulkInsertContacts now (map typed_contact items) d = d\<lparr>contacts := ?U\<rparr>"
    by (simp add: bulkInsertContacts_def insertMany_contacts_typed)
  have last: "\<forall>pk md. map_of (rev items) pk = Some md \<longrightarrow>
      filter (\<lambda>r. pubkey r = Some pk) ?U
        = [\<lparr>pubkey = Some pk, relay = stored_text (fst md), petname = stored_text (snd md),
            addedAt = now\<rparr>]"
    using upsert_all_last [of "with_keys items" _ _ now "contacts d"]
    by (simp add: with_keys_facts contact_row_def)
  have other: "\<forall>pk. pk \<notin> fst ` set items \<longrightarrow>
      filter (\<lambda>r. pubkey r = Some pk) ?U = filter (\<lambda>r. pubkey r = Some pk) (contacts d)"
    by (simp add: upsert_all_other with_keys_facts)
  have nokey: "keyless ?U = keyless (contacts d)"
    by (simp add: upsert_all_keyless with_keys_facts)
  have count: "distinct (keyed (contacts d)) \<longrightarrow>
      distinct (keyed ?U)
      \<and> length ?U = length (keyless (contacts d))
                     + card (set (keyed (contacts d)) \<union> fst ` set items)"
    using upsert_all_count [of "contacts d" now "with_keys items"]
    by (simp add: upsert_all_distinct with_keys_facts)
  have empty: "contacts d = [] \<longrightarrow> length ?U = card (fst ` set items)"
    using count by (auto simp: keyed_def keyless_def)
  have noop: "items = [] \<longrightarrow> d\<lparr>contacts := ?U\<rparr> = d"
    by (simp add: upsert_all_def with_keys_def)
  show ?thesis
    unfolding run using last other nokey count empty noop
    by (simp add: getContactCount_def)
qed

theorem bulkInsertContacts_last_write_wins_witness:
  "bulkInsertContacts 7
     (map typed_contact
        [(''alice'', Some ''wss://old'', None), (''bob'', Some '''', None),
         (''alice'', Some ''wss://new'', Some ''al'')]) empty_db
   = \<lparr>contacts =
        [\<lparr>pubkey = Some ''bob'', relay = None, petname = None, addedAt = 7\<rparr>,
         \<lparr>pubkey = Some ''alice'', relay = Some ''wss://new'', petname = Some ''al'',
          addedAt = 7\<rparr>],
      mutes = [], graph_cache = []\<rparr>
   \<and> filter (\<lambda>r. pubkey r = Some ''alice'')
        (contacts (bulkInsertContacts 7
           (map typed_contact
              [(''alice'', Some ''wss://old'', None), (''bob'', Some '''', None),
               (''alice'', Some ''wss://new'', Some ''al'')]) empty_db))
     = [\<lparr>pubkey = Some ''alice'', relay = Some ''wss://new'', petname = Some ''al'',
         addedAt = 7\<rparr>]
   \<and> getContactCount (bulkInsertContacts 7
        (map typed_contact
           [(''alice'', Some ''wss://old'', None), (''bob'', Some '''', None),
            (''alice'', Some ''wss://new'', Some ''al'')]) empty_db) = 2"
proof -
  let ?items = "[(''alice'', Some ''wss://old'', None), (''bob'', Some '''', None),
                 (''alice'', Some ''wss://new'', Some ''al'')]"
  let ?D = "bulkInsertContacts 7 (map typed_contact ?items) empty_db"
  have last: "\<forall>pk md. map_of (rev ?items) pk = Some md \<longrightarrow>
                 filter (\<lambda>r. pubkey r = Some pk) (contacts ?D)
                 = [\<lparr>pubkey = Some pk, relay = stored_text (fst md),
                     petname = stored_text (snd md), addedAt = 7\<rparr>]"
    and count: "contacts empty_db = [] \<longrightarrow> getContactCount ?D = card (fst ` set ?items)"
    using bulkInsertContacts_last_write_wins [of 7 ?items empty_db] by blast+
  have "map_of (rev ?items) ''alice'' = Some (Some ''wss://new'', Some ''al'')"
    by simp
  then have alice: "filter (\<lambda>r. pubkey r = Some ''alice'') (contacts ?D)
      = [\<lparr>pubkey = Some ''alice'', relay = stored_text (Some ''wss://new''),
          petname = stored_text (Some ''al''), addedAt = 7\<rparr>]"
    using last by fastforce
  have "fst ` set ?items = {''alice'', ''bob''}"
    by auto
  then have two: "getContactCount ?D = 2"
    using count by (simp add: empty_db_def)
  have run: "?D = \<lparr>contacts =
        [\<lparr>pubkey = Some ''bob'', relay = None, petname = None, addedAt = 7\<rparr>,
         \<lparr>pubkey = Some ''alice'', relay = Some ''wss://new'', petname = Some ''al'',
          addedAt = 7\<rparr>],
      mutes = [], graph_cache = []\<rparr>"
    by (simp add: bulkInsertContacts_def typed_contact_def replace_contact_def empty_db_def)
  show ?thesis
    using run alice two by (simp add: stored_text_def)
qed

section \<open>The graph sync command\<close>

lemma nth_opt_numeral [simp]: "nth_opt (x # xs) (numeral n) = nth_opt xs (pred_numeral n)"
  by (simp add: numeral_eq_Suc)

lemma queryEvents_single: "queryEvents q [f] = q f"
  by (cases "q f") simp_all

lemma updateGraphCache_frame:
  "updateGraphCache now s fs k d = Inr d' \<Longrightarrow> contacts d' = contacts d \<and> mutes d' = mutes d"
  by (auto simp: updateGraphCache_def split: sum.splits)

lemma sync_mutes_frame:
  "contacts (fst (sync_mutes q now my d)) = contacts d
   \<and> graph_cache (fst (sync_mutes q now my d)) = graph_cache d"
  by (auto simp: sync_mutes_def Let_def clearMutes_def bulkInsertMutes_def
      split: sum.splits list.splits)


lemma cache_follows_contacts:
  "contacts (fst (cache_follows now evs d)) = contacts d"
  by (induction evs arbitrary: d)
     (auto simp: Let_def split: sum.splits dest: updateGraphCache_frame)

lemma build_cache_contacts:
  "contacts (fst (build_cache q now depth d)) = contacts d"
  by (auto simp: build_cache_def Let_def clearGraphCache_def cache_follows_contacts
      split: sum.splits)

lemma then_step_cases:
  "then_step r f = r \<or> then_step r f = f (fst r)"
  by (simp add: then_step_def split: option.splits)

lemma graphSyncCommand_contacts:
  "contacts (fst (graphSyncCommand q now (Some my) depth d))
     = contacts (fst (sync_contacts q now my d))"
proof -
  let ?r1 = "sync_contacts q now my d"
  let ?r2 = "then_step ?r1 (sync_mutes q now my)"
  let ?dp = "case depth of None \<Rightarrow> 2 | Some n \<Rightarrow> n"
  let ?r3 = "then_step ?r2 (build_cache q now ?dp)"
  have 2: "contacts (fst ?r2) = contacts (fst ?r1)"
    using then_step_cases [of ?r1 "sync_mutes q now my"] by (auto simp: sync_mutes_frame)
  have 3: "contacts (fst ?r3) = contacts (fst ?r2)"
    using then_step_cases [of ?r2 "build_cache q now ?dp"] by (auto simp: build_cache_contacts)
  show ?thesis using 2 3 by (simp add: graphSyncCommand_def Let_def)
qed

lemma sync_contacts_found:
  assumes "q \<lparr>kinds = [3], authors = [Some my], limit = Some 1\<rparr> = Inr (ev # evs)"
  shows "contacts (fst (sync_contacts q now my d)) = upsert_all now [] (referenced_contacts ev)"
proof -
  have eq: "map (\<lambda>t. \<lparr>in_pubkey = nth_opt t (Suc 0), in_relay = nth_opt t 2,
                         in_petname = nth_opt t 3\<rparr>) (p_tags ev)
              = map (\<lambda>t. \<lparr>in_pubkey = fst t, in_relay = fst (snd t), in_petname = snd (snd t)\<rparr>)
                  (referenced_contacts ev)"
    by (simp add: referenced_contacts_def)
  show ?thesis
    using assms
    by (simp add: sync_contacts_def queryEvents_single Let_def eq
        bulkInsertContacts_def insertMany_contacts_upsert clearContacts_def)
qed

lemma sync_contacts_not_found:
  assumes "q \<lparr>kinds = [3], authors = [Some my], limit = Some 1\<rparr> = Inr []"
  shows "sync_contacts q now my d = (d, None)"
  using assms by (simp add: sync_contacts_def queryEvents_single)

lemma distinct_singleton: "distinct xs \<Longrightarrow> set xs = {a} \<Longrightarrow> xs = [a]"
  by (cases xs; cases "tl xs") auto

lemma all_keyed: "None \<notin> pubkey ` set R \<Longrightarrow> map pubkey R = map Some (keyed R)"
  by (induction R) (auto simp: keyed_def split: option.splits)

text \<open>
  Claim C5. In a run of \<open>graphSyncCommand\<close>, when the query for the agent's own follow
  list returns no record, the contacts are afterwards what they were. When it returns a
  record, the contacts are afterwards the rows upserted into an empty table from the
  triples of the record's \<open>p\<close> tags, whatever the table held before: the keys are exactly
  the referenced keys; each referenced key has one row, with the relay hint and petname
  of the key's last tag as stored; and each \<open>p\<close> tag without a key has one row without a
  key. So a record that references only \<open>a\<close> leaves exactly one contact, \<open>a\<close>.
\<close>

theorem sync_contacts_full_replace:
  "(querySync \<lparr>kinds = [3], authors = [Some my], limit = Some 1\<rparr> = Inr [] \<longrightarrow>
      contacts (fst (graphSyncCommand querySync now (Some my) depth d)) = contacts d)
   \<and> (querySync \<lparr>kinds = [3], authors = [Some my], limit = Some 1\<rparr> = Inr (ev # evs) \<longrightarrow>
      contacts (fst (graphSyncCommand querySync now (Some my) depth d))
        = upsert_all now [] (referenced_contacts ev)
      \<and> pubkey ` set (contacts (fst (graphSyncCommand querySync now (Some my) depth d)))
        = fst ` set (referenced_contacts ev)
      \<and> distinct (keyed (contacts (fst (graphSyncCommand querySync now (Some my) depth d))))
      \<and> keyless (contacts (fst (graphSyncCommand querySync now (Some my) depth d)))
        = map (contact_row now) (filter (\<lambda>it. fst it = None) (referenced_contacts ev))
      \<and> (\<forall>pk md. map_of (rev (referenced_contacts ev)) (Some pk) = Some md \<longrightarrow>
            filter (\<lambda>r. pubkey r = Some pk)
              (contacts (fst (graphSyncCommand querySync now (Some my) depth d)))
            = [\<lparr>pubkey = Some pk, relay = stored_text (fst md),
                petname = stored_text (snd md), addedAt = now\<rparr>])
      \<and> (fst ` set (referenced_contacts ev) = {Some a} \<longrightarrow>
            map pubkey (contacts (fst (graphSyncCommand querySync now (Some my) depth d)))
              = [Some a]))"
proof -
  let ?G = "contacts (fst (graphSyncCommand querySync now (Some my) depth d))"
  let ?U = "upsert_all now [] (referenced_contacts ev)"
  have keep: "querySync \<lparr>kinds = [3], authors = [Some my], limit = Some 1\<rparr> = Inr []
      \<Longrightarrow> ?G = contacts d"
    by (simp add: graphSyncCommand_contacts sync_contacts_not_found)
  have dist: "distinct (keyed ?U)"
    by (rule upsert_all_distinct) (simp add: keyed_def)
  have keys: "pubkey ` set ?U = fst ` set (referenced_contacts ev)"
    by (simp add: upsert_all_keys)
  have nokey: "keyless ?U
      = map (contact_row now) (filter (\<lambda>it. fst it = None) (referenced_contacts ev))"
    using upsert_all_keyless [of now "[]" "referenced_contacts ev"] by (simp add: keyless_def)
  have last: "\<forall>pk md. map_of (rev (referenced_contacts ev)) (Some pk) = Some md \<longrightarrow>
      filter (\<lambda>r. pubkey r = Some pk) ?U
        = [\<lparr>pubkey = Some pk, relay = stored_text (fst md),
            petname = stored_text (snd md), addedAt = now\<rparr>]"
    using upsert_all_last [of "referenced_contacts ev" _ _ now "[]"]
    by (simp add: contact_row_def)
  have one: "map pubkey ?U = [Some a]" if only: "fst ` set (referenced_contacts ev) = {Some a}"
  proof -
    have "None \<notin> pubkey ` set ?U" using keys only by simp
    then have m: "map pubkey ?U = map Some (keyed ?U)" by (rule all_keyed)
    have "set (keyed ?U) = {a}" using keys only by (auto simp: set_keyed)
    then have "keyed ?U = [a]" using dist by (intro distinct_singleton)
    then show ?thesis using m by simp
  qed
  have repl: "?G = ?U"
    if "querySync \<lparr>kinds = [3], authors = [Some my], limit = Some 1\<rparr> = Inr (ev # evs)"
    using that by (simp add: graphSyncCommand_contacts sync_contacts_found)
  show ?thesis
    using keep repl dist keys nokey last one by simp
qed

theorem sync_contacts_full_replace_witness:
  "contacts (fst (graphSyncCommand relay_silent 9 (Some ''me'') None fixture_db))
     = contacts fixture_db
   \<and> contacts (fst (graphSyncCommand relay_ab 8 (Some ''me'') None fixture_db))
     = [\<lparr>pubkey = Some ''alice'', relay = Some ''wss://a'', petname = Some ''al'', addedAt = 8\<rparr>,
        \<lparr>pubkey = Some ''bob'', relay = None, petname = Some ''bobby'', addedAt = 8\<rparr>,
        \<lparr>pubkey = None, relay = None, petname = None, addedAt = 8\<rparr>]
   \<and> map pubkey (contacts (fst (graphSyncCommand relay_a 9 (Some ''me'') None
        (fst (graphSyncCommand relay_ab 8 (Some ''me'') None fixture_db)))))
     = [Some ''alice'']"
proof -
  let ?f = "\<lparr>kinds = [3], authors = [Some ''me''], limit = Some 1\<rparr>"
  let ?ab = "\<lparr>ev_pubkey = ''me'', ev_kind = 3,
              tags = [[''p'', ''alice'', ''wss://a'', ''al''], [''e'', ''x''],
                      [''p'', ''bob'', '''', ''bobby''], [''p'']]\<rparr>"
  let ?a = "\<lparr>ev_pubkey = ''me'', ev_kind = 3, tags = [[''p'', ''alice'']]\<rparr>"
  let ?d1 = "fst (graphSyncCommand relay_ab 8 (Some ''me'') None fixture_db)"
  have s: "relay_silent ?f = Inr []" by (simp add: relay_silent_def)
  have ab: "relay_ab ?f = Inr (?ab # [])"
    by (simp add: relay_ab_def)
  have a: "relay_a ?f = Inr (?a # [])"
    by (simp add: relay_a_def)
  have ra: "fst ` set (referenced_contacts ?a) = {Some ''alice''}"
    by (simp add: referenced_contacts_def p_tags_def)
  have rab: "upsert_all 8 [] (referenced_contacts ?ab)
      = [\<lparr>pubkey = Some ''alice'', relay = Some ''wss://a'', petname = Some ''al'', addedAt = 8\<rparr>,
         \<lparr>pubkey = Some ''bob'', relay = None, petname = Some ''bobby'', addedAt = 8\<rparr>,
         \<lparr>pubkey = None, relay = None, petname = None, addedAt = 8\<rparr>]"
    by (simp add: referenced_contacts_def p_tags_def upsert_all_def
        replace_contact_def contact_row_def stored_text_def)
  have 1: "contacts (fst (graphSyncCommand relay_silent 9 (Some ''me'') None fixture_db))
      = contacts fixture_db"
    using sync_contacts_full_replace [of relay_silent "''me''" 9 None fixture_db] s by simp
  have 2: "contacts ?d1 = upsert_all 8 [] (referenced_contacts ?ab)"
    using sync_contacts_full_replace [of relay_ab "''me''" 8 None fixture_db ?ab "[]"] ab
    by blast
  have 3: "map pubkey (contacts (fst (graphSyncCommand relay_a 9 (Some ''me'') None ?d1)))
      = [Some ''alice'']"
    using sync_contacts_full_replace [of relay_a "''me''" 9 None ?d1 ?a "[]" "''alice''"] a ra
    by blast
  show ?thesis using 1 2 3 rab by simp
qed

subsection \<open>Self-loops in the cache\<close>







section \<open>Publishing to the relays\<close>

lemma nth_opt_nth: "i < length xs \<Longrightarrow> nth_opt xs i = Some (xs ! i)"
proof (induction xs arbitrary: i)
  case Nil
  then show ?case by simp
next
  case (Cons x xs)
  then show ?case by (cases i) simp_all
qed

lemma forEach_settled_acknowledged:
  "i + length rs \<le> length relays \<Longrightarrow>
     forEach_settled relays i rs acc = acc @ map Some (acknowledged (drop i relays) rs)"
proof (induction rs arbitrary: i acc)
  case Nil
  show ?case by (simp add: acknowledged_def)
next
  case (Cons r rs)
  then have i: "i < length relays" by simp
  then have d: "drop i relays = relays ! i # drop (Suc i) relays"
    by (simp add: Cons_nth_drop_Suc)
  have step: "Suc i + length rs \<le> length relays" using Cons.prems by simp
  show ?case
    using Cons.IH [OF step] i
    by (cases r) (simp_all add: d acknowledged_def is_fulfilled_def nth_opt_nth)
qed

lemma acknowledged_subseq: "subseq (acknowledged relays outcomes) relays"
proof -
  have "subseq (map fst (filter (\<lambda>p. is_fulfilled (snd p)) (zip relays outcomes)))
          (map fst (zip relays outcomes))"
    by (intro subseq_map subseq_filter_left)
  moreover have "subseq (map fst (zip relays outcomes)) relays"
    by (simp add: map_fst_zip_take prefix_imp_subseq take_is_prefix)
  ultimately show ?thesis
    unfolding acknowledged_def by (rule subseq_order.trans)
qed

lemma acknowledged_member:
  "i < length relays \<Longrightarrow> i < length outcomes \<Longrightarrow> is_fulfilled (outcomes ! i) \<Longrightarrow>
     relays ! i \<in> set (acknowledged relays outcomes)"
proof -
  assume a: "i < length relays" "i < length outcomes" "is_fulfilled (outcomes ! i)"
  then have "(relays ! i, outcomes ! i) \<in> set (zip relays outcomes)"
    by (auto simp: set_zip)
  then show ?thesis
    using a(3) unfolding acknowledged_def by force
qed

text \<open>
  Claim C7. Let \<open>pool.publish\<close> return one promise for each endpoint. Then
  \<open>publishEvent\<close> returns exactly when every send has settled; what it returns is the
  list of the endpoints whose send was fulfilled, in the order of the input and so a
  subsequence of it; and an endpoint whose send was fulfilled is in the result whatever
  the outcomes of the other sends are.
\<close>

theorem publishEvent_acknowledged:
  assumes "length (pool_publish relays ev) = length relays"
  shows "(publishEvent pool_publish ev relays = None \<longleftrightarrow> Pending \<in> set (pool_publish relays ev))
    \<and> (Pending \<notin> set (pool_publish relays ev) \<longrightarrow>
         publishEvent pool_publish ev relays
           = Some (map Some (acknowledged relays (pool_publish relays ev))))
    \<and> subseq (acknowledged relays (pool_publish relays ev)) relays
    \<and> (\<forall>i < length relays. is_fulfilled (pool_publish relays ev ! i) \<longrightarrow>
          relays ! i \<in> set (acknowledged relays (pool_publish relays ev)))"
proof -
  have "forEach_settled relays 0 (pool_publish relays ev) []
      = map Some (acknowledged relays (pool_publish relays ev))"
    using forEach_settled_acknowledged [of 0 "pool_publish relays ev" relays "[]"] assms
    by simp
  then show ?thesis
    using assms
    by (simp add: publishEvent_def allSettled_def acknowledged_subseq acknowledged_member)
qed

theorem publishEvent_acknowledged_witness:
  "length (fixture_publish [''wss://a'', ''wss://down'', ''wss://b''] ())
     = length [''wss://a'', ''wss://down'', ''wss://b'']
   \<and> publishEvent fixture_publish () [''wss://a'', ''wss://down'', ''wss://b'']
     = Some [Some ''wss://a'', Some ''wss://b'']
   \<and> publishEvent fixture_publish () [''wss://a'', ''wss://hang''] = None"
proof -
  have 1: "length (fixture_publish [''wss://a'', ''wss://down'', ''wss://b''] ())
     = length [''wss://a'', ''wss://down'', ''wss://b'']"
    by (simp add: fixture_publish_def)
  have 2: "length (fixture_publish [''wss://a'', ''wss://hang''] ())
     = length [''wss://a'', ''wss://hang'']"
    by (simp add: fixture_publish_def)
  show ?thesis
    using publishEvent_acknowledged
            [of fixture_publish "[''wss://a'', ''wss://down'', ''wss://b'']" "()"]
          publishEvent_acknowledged [of fixture_publish "[''wss://a'', ''wss://hang'']" "()"]
          1 2
    by (simp add: fixture_publish_def acknowledged_def is_fulfilled_def)
qed

section \<open>The stream filter\<close>

lemma filterByTrustDistance_val_string:
  "filterByTrustDistance_val driver d [JString s] my mx
     = Inr (map JString (filterByTrustDistance d [s] my mx))"
  by (simp add: isMuted_val_def bind_param_def getTrustDistance_val_def Let_def
      split: option.split)

lemma filter_line_passes:
  "filter_line P driver d my mx line st =
     (if line_passes P driver d my mx line then pass_line line st else drop_line st)"
  by (simp add: filter_line_def line_passes_def
      split: option.split sum.split bool.split)

lemma filter_lines_run:
  "filter_lines P driver d my mx ls st =
     \<lparr>emitted = emitted st @ filter (line_passes P driver d my mx) ls,
      passed = passed st + length (filter (line_passes P driver d my mx) ls),
      filtered = filtered st + length (filter (\<lambda>l. \<not> line_passes P driver d my mx l) ls)\<rparr>"
  by (induction ls arbitrary: st)
     (simp_all add: filter_line_passes pass_line_def drop_line_def)

lemma fixture_input_lines:
  \<open>input_lines fixture_input =
     [''not json'', ''{"pubkey":"alice"}'', ''{"pubkey":"stranger"}'', ''{"kind":1}'',
      ''{"pubkey":"spammer"}'', ''null'']\<close>
  by (simp add: fixture_input_def input_lines_def trim_def is_ws_def)

lemma fixture_input_pieces: "length (split_nl (trim fixture_input)) = 7"
  by (simp add: fixture_input_def trim_def is_ws_def)

lemma fixture_input2_lines:
  \<open>input_lines fixture_input2 =
     [''{"pubkey":true}'', ''{"pubkey":{}}'', ''{"pubkey":""}'', ''{"pubkey":"stranger"}'']\<close>
  by (simp add: fixture_input2_def input_lines_def trim_def is_ws_def)

lemma fixture_run:
  \<open>graphFilterCommand fixture_parse fixture_driver (Some ''me'') None fixture_input fixture_db =
     Inr \<lparr>emitted = [''not json'', ''{"pubkey":"alice"}'', ''{"kind":1}'', ''null''],
          passed = 4, filtered = 2\<rparr>\<close>
  by (simp add: graphFilterCommand_def fixture_input_lines filter_line_def fixture_parse_def
      pass_line_def drop_line_def fixture_db_def isMuted_val_def bind_param_def isMuted_def
      getTrustDistance_val_def getTrustDistance_def getContacts_def select_min_distance_def)

text \<open>
  Claim C6, as stated, fails. The line \<open>{"pubkey":true}\<close> parses and its record has an
  author field; the trust filter does not keep that author (the lookup raises); and yet
  the line is emitted and counted as passed. The same holds of the line
  \<open>{"pubkey":""}\<close>, whose empty author the trust filter drops.
\<close>

theorem stream_filter_author_counterexample:
  \<open>fixture_parse ''{"pubkey":true}'' = Some (JObject [(''pubkey'', JBool True)])
   \<and> get_pubkey (JObject [(''pubkey'', JBool True)]) = Inr (JBool True)
   \<and> filterByTrustDistance_val fixture_driver fixture_db [JBool True] ''me'' 2 = Inl TypeError
   \<and> graphFilterCommand fixture_parse fixture_driver (Some ''me'') None ''{"pubkey":true}''
        fixture_db
     = Inr \<lparr>emitted = [''{"pubkey":true}''], passed = 1, filtered = 0\<rparr>
   \<and> fixture_parse ''{"pubkey":""}'' = Some (JObject [(''pubkey'', JString '''')])
   \<and> filterByTrustDistance fixture_db [''''] ''me'' 2 = []
   \<and> graphFilterCommand fixture_parse fixture_driver (Some ''me'') None ''{"pubkey":""}''
        fixture_db
     = Inr \<lparr>emitted = [''{"pubkey":""}''], passed = 1, filtered = 0\<rparr>\<close>
  by (simp add: graphFilterCommand_def input_lines_def trim_def is_ws_def filter_line_def
      fixture_parse_def fixture_driver_def pass_line_def fixture_db_def isMuted_val_def
      bind_param_def isMuted_def getTrustDistance_def getContacts_def select_min_distance_def)

text \<open>
  Claim C6, amended. For every input, the lines emitted are, in order, the lines that
  pass, unchanged: a line passes when it does not parse, when reading its author raises,
  when its record has no author field or a falsy one (such as the empty string), and when
  the trust filter raises on its author (a value that the store cannot look up, such as
  \<open>true\<close> or an object); any other line passes exactly when the trust filter keeps its
  author, which for an author that is a string is the decision of
  \<open>filterByTrustDistance\<close>. The reported counts are the numbers of lines emitted and of
  lines dropped.
\<close>

theorem stream_filter_fail_open:
  "graphFilterCommand JSON_parse driver (Some my) mo input d =
     Inr \<lparr>emitted =
            filter (line_passes JSON_parse driver d my (case mo of None \<Rightarrow> 2 | Some n \<Rightarrow> n))
              (input_lines input),
          passed =
            length (filter (line_passes JSON_parse driver d my (case mo of None \<Rightarrow> 2 | Some n \<Rightarrow> n))
              (input_lines input)),
          filtered =
            length (filter (\<lambda>l. \<not> line_passes JSON_parse driver d my
                                     (case mo of None \<Rightarrow> 2 | Some n \<Rightarrow> n) l)
              (input_lines input))\<rparr>
   \<and> (JSON_parse line = Some ev \<and> get_pubkey ev = Inr (JString s) \<and> s \<noteq> [] \<longrightarrow>
        line_passes JSON_parse driver d my mx line = (filterByTrustDistance d [s] my mx \<noteq> []))"
proof -
  have "JSON_parse line = Some ev \<and> get_pubkey ev = Inr (JString s) \<and> s \<noteq> [] \<longrightarrow>
      line_passes JSON_parse driver d my mx line = (filterByTrustDistance d [s] my mx \<noteq> [])"
    by (simp add: line_passes_def filterByTrustDistance_val_string
        del: filterByTrustDistance.simps filterByTrustDistance_val.simps)
  then show ?thesis
    by (simp add: graphFilterCommand_def Let_def filter_lines_run
        del: filterByTrustDistance.simps filterByTrustDistance_val.simps)
qed

theorem stream_filter_fail_open_witness:
  \<open>graphFilterCommand fixture_parse fixture_driver (Some ''me'') None fixture_input fixture_db =
     Inr \<lparr>emitted = [''not json'', ''{"pubkey":"alice"}'', ''{"kind":1}'', ''null''],
          passed = 4, filtered = 2\<rparr>
   \<and> graphFilterCommand fixture_parse fixture_driver (Some ''me'') None fixture_input2 fixture_db =
     Inr \<lparr>emitted = [''{"pubkey":true}'', ''{"pubkey":{}}'', ''{"pubkey":""}''],
          passed = 3, filtered = 1\<rparr>
   \<and> filterByTrustDistance fixture_db [''alice''] ''me'' 2 = [''alice'']
   \<and> filterByTrustDistance fixture_db [''stranger''] ''me'' 2 = []
   \<and> filterByTrustDistance fixture_db [''spammer''] ''me'' 2 = []\<close>
proof -
  have t: \<open>filterByTrustDistance fixture_db [''alice''] ''me'' 2 = [''alice'']
   \<and> filterByTrustDistance fixture_db [''stranger''] ''me'' 2 = []
   \<and> filterByTrustDistance fixture_db [''spammer''] ''me'' 2 = []\<close>
    by (simp add: fixture_db_def isMuted_def getTrustDistance_def getContacts_def
        select_min_distance_def)
  have p: \<open>line_passes fixture_parse fixture_driver fixture_db ''me'' 2 ''not json''
   \<and> line_passes fixture_parse fixture_driver fixture_db ''me'' 2 ''{"kind":1}''
   \<and> line_passes fixture_parse fixture_driver fixture_db ''me'' 2 ''null''
   \<and> line_passes fixture_parse fixture_driver fixture_db ''me'' 2 ''{"pubkey":true}''
   \<and> line_passes fixture_parse fixture_driver fixture_db ''me'' 2 ''{"pubkey":{}}''
   \<and> line_passes fixture_parse fixture_driver fixture_db ''me'' 2 ''{"pubkey":""}''\<close>
    by (simp add: line_passes_def fixture_parse_def fixture_driver_def isMuted_val_def
        bind_param_def)
  have alice: \<open>line_passes fixture_parse fixture_driver fixture_db ''me'' 2 ''{"pubkey":"alice"}''\<close>
    using stream_filter_fail_open [of fixture_parse fixture_driver "''me''" None fixture_input
        fixture_db \<open>''{"pubkey":"alice"}''\<close> \<open>JObject [(''pubkey'', JString ''alice'')]\<close>
        "''alice''" 2] t
    by (simp add: fixture_parse_def del: filterByTrustDistance.simps)
  have stranger:
    \<open>\<not> line_passes fixture_parse fixture_driver fixture_db ''me'' 2 ''{"pubkey":"stranger"}''\<close>
    using stream_filter_fail_open [of fixture_parse fixture_driver "''me''" None fixture_input
        fixture_db \<open>''{"pubkey":"stranger"}''\<close> \<open>JObject [(''pubkey'', JString ''stranger'')]\<close>
        "''stranger''" 2] t
    by (simp add: fixture_parse_def del: filterByTrustDistance.simps)
  have spammer:
    \<open>\<not> line_passes fixture_parse fixture_driver fixture_db ''me'' 2 ''{"pubkey":"spammer"}''\<close>
    using stream_filter_fail_open [of fixture_parse fixture_driver "''me''" None fixture_input
        fixture_db \<open>''{"pubkey":"spammer"}''\<close> \<open>JObject [(''pubkey'', JString ''spammer'')]\<close>
        "''spammer''" 2] t
    by (simp add: fixture_parse_def del: filterByTrustDistance.simps)
  have 1: \<open>graphFilterCommand fixture_parse fixture_driver (Some ''me'') None fixture_input
             fixture_db =
     Inr \<lparr>emitted = [''not json'', ''{"pubkey":"alice"}'', ''{"kind":1}'', ''null''],
          passed = 4, filtered = 2\<rparr>\<close>
    using stream_filter_fail_open [of fixture_parse fixture_driver "''me''" None fixture_input
        fixture_db] p alice stranger spammer
    by (simp add: fixture_input_lines del: filterByTrustDistance.simps)
  have 2: \<open>graphFilterCommand fixture_parse fixture_driver (Some ''me'') None fixture_input2
             fixture_db =
     Inr \<lparr>emitted = [''{"pubkey":true}'', ''{"pubkey":{}}'', ''{"pubkey":""}''],
          passed = 3, filtered = 1\<rparr>\<close>
    using stream_filter_fail_open [of fixture_parse fixture_driver "''me''" None fixture_input2
        fixture_db] p stranger
    by (simp add: fixture_input2_lines del: filterByTrustDistance.simps)
  show ?thesis using 1 2 t by blast
qed

subsection \<open>Empty lines\<close>

lemma split_nl_nonempty: "split_nl s \<noteq> []"
  by (induction s) (auto split: list.splits)

lemma join_split_nl: "join_nl (split_nl s) = s"
proof (induction s)
  case Nil
  show ?case by simp
next
  case (Cons c cs)
  obtain l ls where s: "split_nl cs = l # ls"
    using split_nl_nonempty [of cs] by (cases "split_nl cs") auto
  show ?case
  proof (cases "c = CHR 0x0A")
    case True
    then show ?thesis using Cons.IH s by simp
  next
    case False
    then show ?thesis using Cons.IH s by (cases ls) simp_all
  qed
qed

lemma split_nl_no_newline: "l \<in> set (split_nl s) \<Longrightarrow> CHR 0x0A \<notin> set l"
  by (induction s arbitrary: l) (auto split: if_splits list.splits)

text \<open>
  Claim C10. The pieces of the trimmed input that are empty strings are removed before
  the loop: no processed line is empty, every emitted line is a processed line and so is
  not empty, and the two counts add up to the number of non-empty pieces.
\<close>

theorem empty_lines_removed:
  assumes "graphFilterCommand JSON_parse driver (Some my) mo input d = Inr r"
  shows "[] \<notin> set (input_lines input)
    \<and> set (emitted r) \<subseteq> set (input_lines input)
    \<and> [] \<notin> set (emitted r)
    \<and> passed r + filtered r = length (filter (\<lambda>l. l \<noteq> []) (split_nl (trim input)))"
proof -
  let ?P = "line_passes JSON_parse driver d my (case mo of None \<Rightarrow> 2 | Some n \<Rightarrow> n)"
  have r: "r = \<lparr>emitted = filter ?P (input_lines input),
                passed = length (filter ?P (input_lines input)),
                filtered = length (filter (\<lambda>l. \<not> ?P l) (input_lines input))\<rparr>"
    using assms by (simp add: graphFilterCommand_def Let_def filter_lines_run)
  have ne: "[] \<notin> set (input_lines input)"
    by (simp add: input_lines_def)
  have sub: "set (emitted r) \<subseteq> set (input_lines input)"
    by (auto simp: r)
  have "length (filter ?P (input_lines input)) + length (filter (\<lambda>l. \<not> ?P l) (input_lines input))
      = length (input_lines input)"
    by (rule sum_length_filter_compl)
  then have cnt: "passed r + filtered r = length (filter (\<lambda>l. l \<noteq> []) (split_nl (trim input)))"
    by (simp add: r input_lines_def)
  show ?thesis using ne sub cnt by auto
qed

theorem empty_lines_removed_witness:
  "length (split_nl (trim fixture_input)) = 7
   \<and> (\<exists>r. graphFilterCommand fixture_parse fixture_driver (Some ''me'') None fixture_input
             fixture_db = Inr r
          \<and> [] \<notin> set (emitted r) \<and> passed r + filtered r = 6)"
proof -
  let ?r = \<open>\<lparr>emitted = [''not json'', ''{"pubkey":"alice"}'', ''{"kind":1}'', ''null''],
             passed = 4, filtered = 2\<rparr>\<close>
  have "[] \<notin> set (emitted ?r) \<and> passed ?r + filtered ?r
          = length (filter (\<lambda>l. l \<noteq> []) (split_nl (trim fixture_input)))"
    using empty_lines_removed [OF fixture_run] by simp
  then show ?thesis
    using fixture_run fixture_input_pieces by simp
qed

end
